theory Spec2Isabelle
  imports Main "HOL-Library.AList"
begin

section \<open>Values shared by both source files\<close>

text \<open>
  A JavaScript object whose values are strings, in insertion order. A key that is
  not bound reads as \<open>undefined\<close>, which is \<open>None\<close> here.
\<close>

type_synonym jsobj = "(string \<times> string) list"

definition obj_get :: "jsobj \<Rightarrow> string \<Rightarrow> string option" where
  "obj_get obj k = map_of obj k"

definition obj_set :: "string \<Rightarrow> string \<Rightarrow> jsobj \<Rightarrow> jsobj" where
  "obj_set k v obj = AList.update k v obj"

definition obj_unset :: "string \<Rightarrow> jsobj \<Rightarrow> jsobj" where
  "obj_unset k obj = AList.delete k obj"

text \<open>JavaScript truthiness of a value of type \<open>string | undefined\<close>.\<close>

fun truthy :: "string option \<Rightarrow> bool" where
  "truthy None = False"
| "truthy (Some s) = (s \<noteq> [])"

text \<open>
  HTTP responses. A serialised cookie is kept as the data the framework serialised
  (\<open>cookie.serialize(value, options)\<close>): the cookie's name, the value and the
  \<open>maxAge\<close> option; a cookie serialised by \<open>destroySession\<close> (empty value, expiry at the
  epoch) is \<open>ClearCookie\<close>.
\<close>

datatype cookie_value = CookieData jsobj | CookieId string

datatype set_cookie =
    SetCookie string cookie_value "nat option"
  | ClearCookie string

datatype header =
    Location string
  | Set_Cookie set_cookie
  | Content_Type string

record response =
  status :: nat
  headers :: "header list"
  body :: "string option"

text \<open>
  Anything a JavaScript \<open>throw\<close> (or a rejected promise) can carry: a \<open>Response\<close>,
  an instance of \<open>Error\<close> (its \<open>name\<close> and \<open>message\<close>), or any other value.
\<close>

datatype thrown =
    ThrownResponse response
  | ThrownError string string
  | ThrownOther string

section \<open>The database session store (session.server.ts)\<close>

text \<open>The \<open>Session\<close> interface: a row of the \<open>sessions\<close> table.\<close>

record session_row =
  row_id :: string
  row_data :: "string option"
  row_expires :: "string option"

text \<open>The local user table behind \<open>~/models/user.server\<close>.\<close>

record user =
  user_id :: string
  user_email :: string
  user_externalId :: string

text \<open>Calls made to the collaborators of the auth flow, in the order they are made.\<close>

datatype call =
    Call_fetchToken
  | Call_fetchUser
  | Call_getUserById string
  | Call_getUserByExternalId string
  | Call_createUser string string

record world =
  users :: "user list"
  sessions :: "session_row list"
  calls :: "call list"
  uuid_count :: nat

text \<open>
  What the platform and the framework compute outside the source files:
  \<open>randomUUID()\<close> (its n-th result), \<open>JSON.stringify\<close>, and the expiry date string
  that the framework's \<open>commitSession\<close> hands to \<open>createData\<close>/\<open>updateData\<close> for a given
  \<open>maxAge\<close> option.
\<close>

record platform =
  randomUUID :: "nat \<Rightarrow> string"
  JSON_stringify :: "jsobj \<Rightarrow> string"
  commit_expires :: "nat option \<Rightarrow> string option"

text \<open>
  \<open>createData\<close>: inserts a row with a fresh id, the serialised data and the expiry
  string (absent when \<open>expires\<close> is undefined), and returns the id of the inserted row.
\<close>

definition createData :: "platform \<Rightarrow> jsobj \<Rightarrow> string option \<Rightarrow> world \<Rightarrow> string \<times> world" where
  "createData p dat expires w =
     (let new_id = randomUUID p (uuid_count w);
          row = \<lparr>row_id = new_id, row_data = Some (JSON_stringify p dat), row_expires = expires\<rparr>
      in (new_id, w\<lparr>sessions := sessions w @ [row], uuid_count := Suc (uuid_count w)\<rparr>))"

text \<open>
  \<open>readData\<close>: \<open>select().where({ id }).first()\<close> is the first row with that id, or
  undefined; \<open>result || null\<close> turns undefined into null (\<open>None\<close>) and leaves a row as
  it is. The row is returned whole.
\<close>

definition readData :: "string \<Rightarrow> world \<Rightarrow> session_row option" where
  "readData i w =
     (case find (\<lambda>r. row_id r = i) (sessions w) of
        Some result \<Rightarrow> Some result
      | None \<Rightarrow> None)"

text \<open>
  \<open>updateData\<close>: updates the rows with that id. The query builder leaves out a
  column whose new value is undefined, so an undefined \<open>expires\<close> keeps the old one.
\<close>

definition updateData :: "platform \<Rightarrow> string \<Rightarrow> jsobj \<Rightarrow> string option \<Rightarrow> world \<Rightarrow> world" where
  "updateData p i dat expires w =
     w\<lparr>sessions :=
         map (\<lambda>r. if row_id r = i
                   then r\<lparr>row_data := Some (JSON_stringify p dat),
                          row_expires := (case expires of None \<Rightarrow> row_expires r | Some e \<Rightarrow> Some e)\<rparr>
                   else r)
             (sessions w)\<rparr>"

text \<open>\<open>deleteData\<close>: deletes the rows with that id; deleting none is not an error.\<close>

definition deleteData :: "string \<Rightarrow> world \<Rightarrow> world" where
  "deleteData i w = w\<lparr>sessions := filter (\<lambda>r. row_id r \<noteq> i) (sessions w)\<rparr>"

section \<open>The framework's session objects and storages\<close>

text \<open>
  A request, as far as the auth flow reads it: the path and the query parameters of
  \<open>new URL(request.url)\<close>, and what the framework's \<open>cookie.parse\<close> makes of the
  \<open>Cookie\<close> header for each of the two cookies: the signed data of
  \<open>__client-session\<close> and the session id in \<open>__session\<close> (\<open>None\<close> when the cookie is
  missing or does not verify).
\<close>

record request =
  pathname :: string
  searchParams :: "(string \<times> string) list"
  client_cookie :: "jsobj option"
  db_cookie :: "string option"

record session =
  session_id :: string
  session_data :: jsobj

definition session_get :: "session \<Rightarrow> string \<Rightarrow> string option" where
  "session_get s k = obj_get (session_data s) k"

definition session_set :: "string \<Rightarrow> string \<Rightarrow> session \<Rightarrow> session" where
  "session_set k v s = s\<lparr>session_data := obj_set k v (session_data s)\<rparr>"

definition session_unset :: "string \<Rightarrow> session \<Rightarrow> session" where
  "session_unset k s = s\<lparr>session_data := obj_unset k (session_data s)\<rparr>"

text \<open>
  The cookie session storage (\<open>createCookieSessionStorage\<close>): the session data
  travel in the cookie itself; destroying the session only serialises an expired, empty
  cookie.
\<close>

definition getCookieSession :: "request \<Rightarrow> session" where
  "getCookieSession req =
     \<lparr>session_id = [],
      session_data = (case client_cookie req of Some d \<Rightarrow> d | None \<Rightarrow> [])\<rparr>"

definition commitCookieSession :: "session \<Rightarrow> nat option \<Rightarrow> set_cookie" where
  "commitCookieSession s maxAge = SetCookie ''__client-session'' (CookieData (session_data s)) maxAge"

definition destroyCookieSession :: "session \<Rightarrow> set_cookie" where
  "destroyCookieSession s = ClearCookie ''__client-session''"

text \<open>
  A row as the object \<open>readData\<close> returns: the framework takes whatever \<open>readData\<close>
  returns as the data of the session. The keys are those of the \<open>Session\<close> interface,
  whose \<open>data\<close> and \<open>expires\<close> are optional strings. (The query builder reads a NULL
  column as the value null under its key; an object here holds strings only, so such a
  key is left out. The auth flow reads none of the three keys.)
\<close>

definition row_object :: "session_row \<Rightarrow> jsobj" where
  "row_object r =
     [(''id'', row_id r)]
     @ (case row_data r of Some d \<Rightarrow> [(''data'', d)] | None \<Rightarrow> [])
     @ (case row_expires r of Some e \<Rightarrow> [(''expires'', e)] | None \<Rightarrow> [])"

text \<open>
  The database session storage (\<open>createSessionStorage\<close> over the four functions
  above). \<open>getSession\<close>: \<open>id = cookieHeader && parse(cookieHeader)\<close>,
  \<open>data = id && readData(id)\<close>, and the session is \<open>createSession(data || {}, id || "")\<close>.
  \<open>commitSession\<close> updates the row of a session that has an id and creates one
  otherwise; \<open>destroySession\<close> calls \<open>deleteData(session.id)\<close>.
\<close>

definition getDbSession :: "request \<Rightarrow> world \<Rightarrow> session" where
  "getDbSession req w =
     (case db_cookie req of
        None \<Rightarrow> \<lparr>session_id = [], session_data = []\<rparr>
      | Some i \<Rightarrow>
          if i = [] then \<lparr>session_id = [], session_data = []\<rparr>
          else (case readData i w of
                  None \<Rightarrow> \<lparr>session_id = i, session_data = []\<rparr>
                | Some r \<Rightarrow> \<lparr>session_id = i, session_data = row_object r\<rparr>))"

definition commitDbSession ::
  "platform \<Rightarrow> session \<Rightarrow> nat option \<Rightarrow> world \<Rightarrow> set_cookie \<times> world" where
  "commitDbSession p s maxAge w =
     (if session_id s \<noteq> []
      then (SetCookie ''__session'' (CookieId (session_id s)) maxAge,
            updateData p (session_id s) (session_data s) (commit_expires p maxAge) w)
      else (let (new_id, w') = createData p (session_data s) (commit_expires p maxAge) w
            in (SetCookie ''__session'' (CookieId new_id) maxAge, w')))"

definition destroyDbSession :: "session \<Rightarrow> world \<Rightarrow> set_cookie \<times> world" where
  "destroyDbSession s w = (ClearCookie ''__session'', deleteData (session_id s) w)"

text \<open>
  The framework's \<open>redirect(url, init)\<close>: a response without body whose \<open>Location\<close>
  header is set to the url (replacing one given in \<open>init\<close>); the status is 302 unless
  \<open>init\<close> gives one. \<open>json(data, status)\<close>: the serialised data as body.
\<close>

fun is_Location :: "header \<Rightarrow> bool" where
  "is_Location (Location u) = True"
| "is_Location h = False"

definition redirect :: "string \<Rightarrow> nat \<Rightarrow> header list \<Rightarrow> response" where
  "redirect url st hs =
     \<lparr>status = st, headers = filter (\<lambda>h. \<not> is_Location h) hs @ [Location url], body = None\<rparr>"

definition json :: "platform \<Rightarrow> jsobj \<Rightarrow> nat \<Rightarrow> response" where
  "json p dat st =
     \<lparr>status = st, headers = [Content_Type ''application/json; charset=utf-8''],
      body = Some (JSON_stringify p dat)\<rparr>"

section \<open>Query strings\<close>

text \<open>
  \<open>URLSearchParams\<close> serialises with the \<open>application/x-www-form-urlencoded\<close>
  byte serialiser: letters, digits and \<open>* - . _\<close> stay, a space becomes \<open>+\<close>, every
  other byte becomes \<open>%\<close> and two upper-case hexadecimal digits. A \<open>string\<close> is read
  as the bytes of the text.
\<close>

definition hexdigit :: "nat \<Rightarrow> char" where
  "hexdigit n = (if n < 10 then char_of (48 + n) else char_of (55 + n))"

definition unreserved :: "char \<Rightarrow> bool" where
  "unreserved c =
     (let n = (of_char c :: nat)
      in (48 \<le> n \<and> n \<le> 57) \<or> (65 \<le> n \<and> n \<le> 90) \<or> (97 \<le> n \<and> n \<le> 122)
         \<or> n = 42 \<or> n = 45 \<or> n = 46 \<or> n = 95)"

definition form_encode_byte :: "char \<Rightarrow> string" where
  "form_encode_byte c =
     (if unreserved c then [c]
      else if c = CHR '' '' then ''+''
      else [CHR ''%'', hexdigit (of_char c div 16), hexdigit (of_char c mod 16)])"

definition form_encode :: "string \<Rightarrow> string" where
  "form_encode s = concat (map form_encode_byte s)"

fun URLSearchParams_toString :: "(string \<times> string) list \<Rightarrow> string" where
  "URLSearchParams_toString [] = []"
| "URLSearchParams_toString [(k, v)] = form_encode k @ ''='' @ form_encode v"
| "URLSearchParams_toString ((k, v) # kvs) =
     form_encode k @ ''='' @ form_encode v @ ''&'' @ URLSearchParams_toString kvs"

text \<open>
  The reading side (the parser of the same format, which the login route applies to the
  redirect location): \<open>+\<close> is a space and \<open>%\<close> with two hexadecimal digits is that byte.
\<close>

definition is_hex :: "char \<Rightarrow> bool" where
  "is_hex c =
     (let n = (of_char c :: nat)
      in (48 \<le> n \<and> n \<le> 57) \<or> (65 \<le> n \<and> n \<le> 70) \<or> (97 \<le> n \<and> n \<le> 102))"

definition unhex :: "char \<Rightarrow> nat" where
  "unhex c =
     (let n = (of_char c :: nat)
      in if n \<le> 57 then n - 48 else if n \<le> 70 then n - 55 else n - 87)"

fun form_decode :: "string \<Rightarrow> string" where
  "form_decode [] = []"
| "form_decode (c # cs) =
     (if c = CHR ''+'' then CHR '' '' # form_decode cs
      else if c = CHR ''%'' then
        (case cs of
           h # l # rest \<Rightarrow>
             if is_hex h \<and> is_hex l then char_of (16 * unhex h + unhex l) # form_decode rest
             else c # form_decode cs
         | _ \<Rightarrow> c # form_decode cs)
      else c # form_decode cs)"

section \<open>The auth flow (session.server.ts)\<close>

text \<open>
  The collaborators the auth flow imports from \<open>~/models/discordOauth2.server\<close> and
  \<open>~/models/user.server\<close>. Each is a parameter: it may return or reject, and
  \<open>createUser\<close> may change the user table. \<open>createUser\<close> resolves to the new user's id,
  or to nothing.
\<close>

record discord_user =
  discord_id :: string
  discord_email :: string

record deps =
  fetchToken :: "thrown + jsobj"
  fetchUser :: "jsobj \<Rightarrow> thrown + discord_user"
  getUserById :: "string \<Rightarrow> user list \<Rightarrow> thrown + user option"
  getUserByExternalId :: "string \<Rightarrow> user list \<Rightarrow> thrown + user option"
  createUser :: "string \<Rightarrow> string \<Rightarrow> user list \<Rightarrow> (thrown + string option) \<times> user list"

definition log_call :: "call \<Rightarrow> world \<Rightarrow> world" where
  "log_call c w = w\<lparr>calls := calls w @ [c]\<rparr>"

definition USER_SESSION_KEY :: string where
  "USER_SESSION_KEY = ''userId''"

definition getUserId :: "request \<Rightarrow> string option" where
  "getUserId req = session_get (getCookieSession req) USER_SESSION_KEY"

definition logout :: "request \<Rightarrow> world \<Rightarrow> response \<times> world" where
  "logout req w =
     (let cookieSession = getCookieSession req;
          dbSession = getDbSession req w;
          cookie = destroyCookieSession cookieSession;
          (dbCookie, w') = destroyDbSession dbSession w
      in (redirect ''/'' 302 [Set_Cookie cookie, Set_Cookie dbCookie], w'))"

definition getUser :: "deps \<Rightarrow> request \<Rightarrow> world \<Rightarrow> (thrown + user option) \<times> world" where
  "getUser d req w =
     (case getUserId req of
        None \<Rightarrow> (Inr None, w)
      | Some userId \<Rightarrow>
          (let w1 = log_call (Call_getUserById userId) w
           in case getUserById d userId (users w1) of
                Inl e \<Rightarrow> (Inl e, w1)
              | Inr (Some u) \<Rightarrow> (Inr (Some u), w1)
              | Inr None \<Rightarrow> (let (r, w2) = logout req w1 in (Inl (ThrownResponse r), w2))))"

text \<open>
  \<open>requireUserId(request, redirectTo = new URL(request.url).pathname)\<close>: the second
  argument is optional and defaults to the path of the request.
\<close>

definition requireUserId :: "request \<Rightarrow> string option \<Rightarrow> thrown + string" where
  "requireUserId req redirectTo_arg =
     (let redirectTo = (case redirectTo_arg of None \<Rightarrow> pathname req | Some t \<Rightarrow> t)
      in case getUserId req of
           None \<Rightarrow>
             Inl (ThrownResponse
                    (redirect (''/login?'' @ URLSearchParams_toString [(''redirectTo'', redirectTo)]) 302 []))
         | Some userId \<Rightarrow>
             if userId = []
             then Inl (ThrownResponse
                    (redirect (''/login?'' @ URLSearchParams_toString [(''redirectTo'', redirectTo)]) 302 []))
             else Inr userId)"

definition requireUser :: "deps \<Rightarrow> request \<Rightarrow> world \<Rightarrow> (thrown + user) \<times> world" where
  "requireUser d req w =
     (case requireUserId req None of
        Inl e \<Rightarrow> (Inl e, w)
      | Inr userId \<Rightarrow>
          (let w1 = log_call (Call_getUserById userId) w
           in case getUserById d userId (users w1) of
                Inl e \<Rightarrow> (Inl e, w1)
              | Inr (Some u) \<Rightarrow> (Inr u, w1)
              | Inr None \<Rightarrow> (let (r, w2) = logout req w1 in (Inl (ThrownResponse r), w2))))"

text \<open>
  \<open>dbSession.get("state") !== state\<close>: the left side is a string or undefined, the
  right side (\<open>url.searchParams.get("state")\<close>) a string or null. Undefined and null
  are different values, so the two sides are equal only when both are strings, and the
  same string.
\<close>

fun strict_differs :: "string option \<Rightarrow> string option \<Rightarrow> bool" where
  "strict_differs (Some a) (Some b) = (a \<noteq> b)"
| "strict_differs stored param = True"

definition no_user_response :: "platform \<Rightarrow> response" where
  "no_user_response p =
     json p [(''message'', ''Couldn'' @ [CHR 0x27] @ ''t find a user or create a new user'')] 500"

definition completeOauthLogin ::
  "platform \<Rightarrow> deps \<Rightarrow> request \<Rightarrow> world \<Rightarrow> (thrown + response) \<times> world" where
  "completeOauthLogin p d req w =
     (let w1 = log_call Call_fetchToken w
      in case fetchToken d of
           Inl e \<Rightarrow> (Inl e, w1)
         | Inr token \<Rightarrow>
     (let w2 = log_call Call_fetchUser w1
      in case fetchUser d token of
           Inl e \<Rightarrow> (Inl e, w2)
         | Inr discordUser \<Rightarrow>
     (let w3 = log_call (Call_getUserByExternalId (discord_id discordUser)) w2;
          found = (case getUserByExternalId d (discord_id discordUser) (users w3) of
                     Inr (Some u) \<Rightarrow> Some (user_id u)
                   | Inr None \<Rightarrow> None
                   | Inl e \<Rightarrow> None);
          (resolved, w4) =
            (if \<not> truthy found
             then (let (r, us) = createUser d (discord_email discordUser) (discord_id discordUser) (users w3)
                   in (r, (log_call (Call_createUser (discord_email discordUser) (discord_id discordUser)) w3)
                            \<lparr>users := us\<rparr>))
             else (Inr found, w3))
      in case resolved of
           Inl e \<Rightarrow> (Inl e, w4)
         | Inr None \<Rightarrow> (Inl (ThrownResponse (no_user_response p)), w4)
         | Inr (Some userId) \<Rightarrow>
             if userId = [] then (Inl (ThrownResponse (no_user_response p)), w4)
             else
               (let cookieSession = getCookieSession req;
                    dbSession = getDbSession req w4;
                    state = map_of (searchParams req) ''state''
                in if strict_differs (session_get dbSession ''state'') state
                   then (Inl (ThrownResponse (redirect ''/login'' 401 [])), w4)
                   else
                     (let cookieSession' = session_set USER_SESSION_KEY userId cookieSession;
                          dbSession' = session_set ''discordToken'' (JSON_stringify p token)
                                         (session_unset ''state'' dbSession);
                          cookie = commitCookieSession cookieSession' (Some (60 * 60 * 24 * 7));
                          (dbCookie, w5) = commitDbSession p dbSession' None w4
                      in (Inr (redirect ''/'' 302 [Set_Cookie cookie, Set_Cookie dbCookie]), w5))))))"

section \<open>The setup command (setup.ts)\<close>

text \<open>
  What the handler reads of the interaction: the guild (its id) or null, and the two
  options, each the id of the selected role or channel, or null.
\<close>

record interaction =
  guild :: "string option"
  option_moderator :: "string option"
  option_mod_log_channel :: "string option"

text \<open>The settings store: for each registered guild (by id) its settings object.\<close>

type_synonym guild_store = "(string \<times> jsobj) list"

record bot =
  guilds :: guild_store
  replies :: "string list"

text \<open>
  The imports from \<open>~/models/guilds.server\<close>, as parameters: the two keys of
  \<open>SETTINGS\<close> and the two functions, each of which may reject and may change the store.
\<close>

record guild_deps =
  SETTINGS_modLog :: string
  SETTINGS_moderator :: string
  registerGuild :: "string \<Rightarrow> guild_store \<Rightarrow> (thrown + unit) \<times> guild_store"
  setSettings :: "string \<Rightarrow> jsobj \<Rightarrow> guild_store \<Rightarrow> (thrown + unit) \<times> guild_store"

text \<open>\<open>Error.prototype.toString\<close>, from the name and the message of the error.\<close>

definition Error_toString :: "string \<Rightarrow> string \<Rightarrow> string" where
  "Error_toString name msg =
     (if name = [] then msg else if msg = [] then name else name @ '': '' @ msg)"

definition reply :: "string \<Rightarrow> bot \<Rightarrow> bot" where
  "reply text b = b\<lparr>replies := replies b @ [text]\<rparr>"

text \<open>The body of the \<open>try\<close> block.\<close>

definition handler_try :: "guild_deps \<Rightarrow> interaction \<Rightarrow> bot \<Rightarrow> (thrown + unit) \<times> bot" where
  "handler_try d i b =
     (case guild i of
        None \<Rightarrow> (Inl (ThrownError ''Error'' ''Interaction has no guild''), b)
      | Some g \<Rightarrow>
          (case registerGuild d g (guilds b) of
             (Inl e, gs1) \<Rightarrow> (Inl e, b\<lparr>guilds := gs1\<rparr>)
           | (Inr u, gs1) \<Rightarrow>
               (let b1 = b\<lparr>guilds := gs1\<rparr>
                in case option_moderator i of
                     None \<Rightarrow> (Inl (ThrownError ''Error'' ''Interaction has no role''), b1)
                   | Some role \<Rightarrow>
                       (case option_mod_log_channel i of
                          None \<Rightarrow> (Inl (ThrownError ''Error'' ''Interaction has no channel''), b1)
                        | Some channel \<Rightarrow>
                            (case setSettings d g
                                    (obj_set (SETTINGS_moderator d) role
                                       (obj_set (SETTINGS_modLog d) channel []))
                                    (guilds b1) of
                               (Inl e, gs2) \<Rightarrow> (Inl e, b1\<lparr>guilds := gs2\<rparr>)
                             | (Inr u, gs2) \<Rightarrow>
                                 (Inr (), reply ''Setup completed!'' (b1\<lparr>guilds := gs2\<rparr>)))))))"

text \<open>
  The handler: the \<open>try\<close> block, and the \<open>catch\<close> clause, which replies only when the
  caught value is an instance of \<open>Error\<close> and ends normally in every case.
\<close>

definition broke_message :: "string \<Rightarrow> string" where
  "broke_message text =
     ''Something broke:'' @ [CHR 0x0A] @ ''```'' @ [CHR 0x0A] @ text @ [CHR 0x0A] @ ''```'' @ [CHR 0x0A]"

definition handler :: "guild_deps \<Rightarrow> interaction \<Rightarrow> bot \<Rightarrow> (thrown + unit) \<times> bot" where
  "handler d i b =
     (case handler_try d i b of
        (Inr u, b') \<Rightarrow> (Inr (), b')
      | (Inl e, b') \<Rightarrow>
          (case e of
             ThrownError name msg \<Rightarrow> (Inr (), reply (broke_message (Error_toString name msg)) b')
           | ThrownResponse r \<Rightarrow> (Inr (), b')
           | ThrownOther v \<Rightarrow> (Inr (), b')))"

section \<open>Collaborators that are not among the source files\<close>

text \<open>
  Modelled from the spec: \<open>getUserById\<close>, \<open>getUserByExternalId\<close> and \<open>createUser\<close> of
  \<open>~/models/user.server\<close>. The spec has the login completion look up "a local user by
  the remote user's external identifier" and, "if none exists", create one;
  \<open>requireUser\<close> "resolves the user" by the id of the cookie session. The id of a new
  user is chosen by the database and is a parameter here.
\<close>

definition getUserById_spec :: "string \<Rightarrow> user list \<Rightarrow> thrown + user option" where
  "getUserById_spec i us = Inr (find (\<lambda>u. user_id u = i) us)"

definition getUserByExternalId_spec :: "string \<Rightarrow> user list \<Rightarrow> thrown + user option" where
  "getUserByExternalId_spec x us = Inr (find (\<lambda>u. user_externalId u = x) us)"

definition createUser_spec ::
  "string \<Rightarrow> string \<Rightarrow> string \<Rightarrow> user list \<Rightarrow> (thrown + string option) \<times> user list" where
  "createUser_spec new_id mail x us =
     (Inr (Some new_id), us @ [\<lparr>user_id = new_id, user_email = mail, user_externalId = x\<rparr>])"

text \<open>
  Modelled from the spec: \<open>SETTINGS\<close>, \<open>registerGuild\<close> and \<open>setSettings\<close> of
  \<open>~/models/guilds.server\<close>. The spec names the two keys in its scenario
  (\<open>{moderator: "123", modLog: "456"}\<close>), has the handler register "the guild in a
  settings store if not already present" and write the settings of that guild, which
  are "overwritten on subsequent invocations".
\<close>

definition registerGuild_spec :: "string \<Rightarrow> guild_store \<Rightarrow> (thrown + unit) \<times> guild_store" where
  "registerGuild_spec g gs =
     (Inr (), if map_of gs g = None then gs @ [(g, [])] else gs)"

definition write_settings :: "jsobj \<Rightarrow> jsobj \<Rightarrow> jsobj" where
  "write_settings new old = fold (\<lambda>(k, v) obj. obj_set k v obj) new old"

definition setSettings_spec :: "string \<Rightarrow> jsobj \<Rightarrow> guild_store \<Rightarrow> (thrown + unit) \<times> guild_store" where
  "setSettings_spec g new gs =
     (Inr (), map (\<lambda>(k, old). if k = g then (k, write_settings new old) else (k, old)) gs)"

definition guilds_server_spec :: guild_deps where
  "guilds_server_spec =
     \<lparr>SETTINGS_modLog = ''modLog'', SETTINGS_moderator = ''moderator'',
      registerGuild = registerGuild_spec, setSettings = setSettings_spec\<rparr>"

section \<open>Concrete collaborators and inputs\<close>

text \<open>
  Collaborators with a fixed behaviour, for evaluating the auth flow at concrete
  inputs: a profile fetch that resolves to the given result, a user lookup that rejects
  (a network error, say), and a user creation that resolves to nothing.
\<close>

definition fetchUser_result :: "thrown + discord_user \<Rightarrow> jsobj \<Rightarrow> thrown + discord_user" where
  "fetchUser_result r token = r"

definition getUserByExternalId_rejects :: "thrown \<Rightarrow> string \<Rightarrow> user list \<Rightarrow> thrown + user option" where
  "getUserByExternalId_rejects e x us = Inl e"


definition registerGuild_rejects :: "thrown \<Rightarrow> string \<Rightarrow> guild_store \<Rightarrow> (thrown + unit) \<times> guild_store" where
  "registerGuild_rejects e g gs = (Inl e, gs)"

text \<open>
  The remote user \<open>42\<close>; the collaborators as the spec describes them, with \<open>u2\<close> the
  id of the next user created; a platform whose serialiser and clock are trivial (no
  result below depends on them).
\<close>

definition remote_user :: discord_user where
  "remote_user = \<lparr>discord_id = ''42'', discord_email = ''ann@example.org''\<rparr>"

definition spec_deps :: deps where
  "spec_deps =
     \<lparr>fetchToken = Inr [(''access_token'', ''t0'')],
      fetchUser = fetchUser_result (Inr remote_user),
      getUserById = getUserById_spec,
      getUserByExternalId = getUserByExternalId_spec,
      createUser = createUser_spec ''u2''\<rparr>"

definition stringify_keys :: "jsobj \<Rightarrow> string" where
  "stringify_keys obj = concat (map fst obj)"

definition uuid_of :: "nat \<Rightarrow> string" where
  "uuid_of n = replicate (Suc n) CHR ''x''"

definition no_expiry :: "nat option \<Rightarrow> string option" where
  "no_expiry maxAge = None"

definition test_platform :: platform where
  "test_platform =
     \<lparr>randomUUID = uuid_of, JSON_stringify = stringify_keys, commit_expires = no_expiry\<rparr>"

text \<open>
  A world with one local user (\<open>u1\<close>, the remote user \<open>42\<close>) and one database session
  \<open>s1\<close>, whose row holds a pending state; and the same world without the user.
\<close>

definition pending_row :: session_row where
  "pending_row = \<lparr>row_id = ''s1'', row_data = Some ''state'', row_expires = None\<rparr>"

definition world_with_user :: world where
  "world_with_user =
     \<lparr>users = [\<lparr>user_id = ''u1'', user_email = ''ann@example.org'', user_externalId = ''42''\<rparr>],
      sessions = [pending_row], calls = [], uuid_count = 0\<rparr>"

definition world_without_user :: world where
  "world_without_user = \<lparr>users = [], sessions = [pending_row], calls = [], uuid_count = 0\<rparr>"

text \<open>
  The callback request of a login with state \<open>abc\<close>, carrying the cookie of session
  \<open>s1\<close>; a request whose cookie session has the empty string as user id; and a request
  whose cookie session names the user \<open>u9\<close>.
\<close>

definition callback_request :: request where
  "callback_request =
     \<lparr>pathname = ''/auth'', searchParams = [(''code'', ''c0''), (''state'', ''abc'')],
      client_cookie = None, db_cookie = Some ''s1''\<rparr>"

definition empty_id_request :: request where
  "empty_id_request =
     \<lparr>pathname = ''/a'', searchParams = [], client_cookie = Some [(''userId'', [])],
      db_cookie = Some ''s1''\<rparr>"

definition stale_request :: request where
  "stale_request =
     \<lparr>pathname = ''/a'', searchParams = [], client_cookie = Some [(''userId'', ''u9'')],
      db_cookie = Some ''s1''\<rparr>"

text \<open>
  Interactions and bot states: a setup command with both options in guild \<open>g1\<close>, one
  without guild, a bot that knows no guild and one where \<open>g1\<close> has settings already.
\<close>

definition setup_interaction :: interaction where
  "setup_interaction =
     \<lparr>guild = Some ''g1'', option_moderator = Some ''123'', option_mod_log_channel = Some ''456''\<rparr>"

definition no_guild_interaction :: interaction where
  "no_guild_interaction =
     \<lparr>guild = None, option_moderator = Some ''123'', option_mod_log_channel = Some ''456''\<rparr>"

definition empty_bot :: bot where
  "empty_bot = \<lparr>guilds = [], replies = []\<rparr>"

definition registered_bot :: bot where
  "registered_bot = \<lparr>guilds = [(''g1'', [(''moderator'', ''7''), (''modLog'', ''8'')])], replies = []\<rparr>"

section \<open>Reading the session table\<close>

lemma find_row_absent:
  "(\<forall>r \<in> set xs. row_id r \<noteq> i) \<Longrightarrow> find (\<lambda>r. row_id r = i) xs = None"
  by (simp add: find_None_iff)

lemma find_row_unique:
  "r \<in> set xs \<Longrightarrow> distinct (map row_id xs) \<Longrightarrow> find (\<lambda>q. row_id q = row_id r) xs = Some r"
  by (induction xs) (auto simp: image_iff)

lemma find_row_present:
  "r \<in> set xs \<Longrightarrow>
     \<exists>r'. find (\<lambda>q. row_id q = row_id r) xs = Some r' \<and> r' \<in> set xs \<and> row_id r' = row_id r"
  by (induction xs) auto

text \<open>
  Claim C8. \<open>readData\<close> returns null (\<open>None\<close>) for an id that no row has; for the id of
  a stored row it returns a stored row with that id, and that very row when the ids
  of the table are distinct (\<open>id\<close> is the primary key). The row is arbitrary, so
  neither its \<open>expires\<close> column nor any clock has a part in the result: a row whose
  expiry lies in the past is returned like any other. \<open>readData\<close> has no error result.
\<close>

theorem readData_returns_stored_row:
  "((\<forall>r \<in> set (sessions w). row_id r \<noteq> i) \<longrightarrow> readData i w = None)
   \<and> (r \<in> set (sessions w) \<longrightarrow>
        (\<exists>r'. readData (row_id r) w = Some r' \<and> r' \<in> set (sessions w) \<and> row_id r' = row_id r))
   \<and> (r \<in> set (sessions w) \<and> distinct (map row_id (sessions w)) \<longrightarrow> readData (row_id r) w = Some r)"
proof (intro conjI impI)
  assume "\<forall>r \<in> set (sessions w). row_id r \<noteq> i"
  then show "readData i w = None"
    by (simp add: readData_def find_row_absent)
next
  assume "r \<in> set (sessions w)"
  from find_row_present [OF this]
  show "\<exists>r'. readData (row_id r) w = Some r' \<and> r' \<in> set (sessions w) \<and> row_id r' = row_id r"
    by (auto simp: readData_def)
next
  assume "r \<in> set (sessions w) \<and> distinct (map row_id (sessions w))"
  then show "readData (row_id r) w = Some r"
    by (simp add: readData_def find_row_unique)
qed

text \<open>
  A table with one row that expired at the epoch: the row is read back, and another id
  reads as null.
\<close>

theorem readData_returns_stored_row_witness:
  "readData ''s1''
     \<lparr>users = [],
      sessions = [\<lparr>row_id = ''s1'', row_data = Some ''{}'',
                   row_expires = Some ''Thu Jan 01 1970 00:00:00 GMT+0000''\<rparr>],
      calls = [], uuid_count = 0\<rparr>
   = Some \<lparr>row_id = ''s1'', row_data = Some ''{}'', row_expires = Some ''Thu Jan 01 1970 00:00:00 GMT+0000''\<rparr>
   \<and> readData ''s2''
     \<lparr>users = [],
      sessions = [\<lparr>row_id = ''s1'', row_data = Some ''{}'',
                   row_expires = Some ''Thu Jan 01 1970 00:00:00 GMT+0000''\<rparr>],
      calls = [], uuid_count = 0\<rparr>
   = None"
  using readData_returns_stored_row
          [of "\<lparr>users = [],
                sessions = [\<lparr>row_id = ''s1'', row_data = Some ''{}'',
                             row_expires = Some ''Thu Jan 01 1970 00:00:00 GMT+0000''\<rparr>],
                calls = [], uuid_count = 0\<rparr>"
              "''s2''"
              "\<lparr>row_id = ''s1'', row_data = Some ''{}'',
                row_expires = Some ''Thu Jan 01 1970 00:00:00 GMT+0000''\<rparr>"]
  by simp

section \<open>Requiring a user id\<close>

lemma of_char_lt_256: "(of_char c :: nat) < 256"
  by (metis of_char_mod_256 mod_less_divisor zero_less_numeral)

lemma is_hex_hexdigit: "n < 16 \<Longrightarrow> is_hex (hexdigit n)"
  by (auto simp: is_hex_def hexdigit_def Let_def)

lemma unhex_hexdigit: "n < 16 \<Longrightarrow> unhex (hexdigit n) = n"
  by (auto simp: unhex_def hexdigit_def Let_def)

lemma char_div_lt: "(of_char c :: nat) div 16 < 16"
proof -
  have "(of_char c :: nat) < 16 * 16" using of_char_lt_256 [of c] by simp
  then show ?thesis by (rule less_mult_imp_div_less)
qed

lemma unreserved_not_special: "unreserved c \<Longrightarrow> c \<noteq> CHR ''+'' \<and> c \<noteq> CHR ''%''"
  by (auto simp: unreserved_def Let_def)

lemma form_decode_encode_byte: "form_decode (form_encode_byte c @ s) = c # form_decode s"
proof (cases "unreserved c")
  case True
  then show ?thesis using unreserved_not_special [OF True] by (simp add: form_encode_byte_def)
next
  case False
  show ?thesis
  proof (cases "c = CHR '' ''")
    case True
    then show ?thesis using False by (simp add: form_encode_byte_def)
  next
    case sp: False
    have a: "(of_char c :: nat) div 16 < 16" by (rule char_div_lt)
    have b: "(of_char c :: nat) mod 16 < 16" by simp
    show ?thesis using False sp
      by (simp add: form_encode_byte_def is_hex_hexdigit [OF a] is_hex_hexdigit [OF b]
            unhex_hexdigit [OF a] unhex_hexdigit [OF b])
  qed
qed

lemma form_decode_encode_append: "form_decode (form_encode s @ t) = s @ form_decode t"
  by (induction s) (simp_all add: form_encode_def form_decode_encode_byte)

lemma form_decode_encode: "form_decode (form_encode s) = s"
  using form_decode_encode_append [of s "[]"] by simp

lemma form_encode_redirectTo: "form_encode ''redirectTo'' = ''redirectTo''"
  by (simp add: form_encode_def form_encode_byte_def unreserved_def)

lemma hexdigit_2: "hexdigit 2 = CHR ''2''"
  by (simp add: hexdigit_def char_of_eq_iff)

lemma hexdigit_15: "hexdigit 15 = CHR ''F''"
  by (simp add: hexdigit_def char_of_eq_iff)

lemma form_encode_byte_slash: "form_encode_byte CHR ''/'' = ''%2F''"
  by (simp add: form_encode_byte_def unreserved_def hexdigit_2 hexdigit_15)

lemma form_encode_Cons: "form_encode (c # s) = form_encode_byte c @ form_encode s"
  by (simp add: form_encode_def)

lemma form_encode_mod_log: "form_encode ''/mod log'' = ''%2Fmod+log''"
  by (simp add: form_encode_Cons form_encode_byte_slash)
     (simp add: form_encode_def form_encode_byte_def unreserved_def)

lemma form_encode_a: "form_encode ''/a'' = ''%2Fa''"
  by (simp add: form_encode_Cons form_encode_byte_slash)
     (simp add: form_encode_def form_encode_byte_def unreserved_def)

text \<open>
  Claim C7. When the cookie session of the request carries no user id,
  \<open>requireUserId(request)\<close> throws a redirect (status 302) whose location is
  \<open>/login?redirectTo=\<close> followed by the form-encoded path of the request, and nothing
  else; decoding that query parameter gives back the path of the request.
\<close>

theorem requireUserId_redirects_to_login:
  assumes "getUserId req = None"
  shows "requireUserId req None =
           Inl (ThrownResponse
                  \<lparr>status = 302,
                   headers = [Location (''/login?redirectTo='' @ form_encode (pathname req))],
                   body = None\<rparr>)
         \<and> form_decode (form_encode (pathname req)) = pathname req"
  using assms
  by (simp add: requireUserId_def redirect_def form_encode_redirectTo form_decode_encode)

text \<open>A request for \<open>/mod log\<close> without cookies.\<close>

theorem requireUserId_redirects_to_login_witness:
  "getUserId \<lparr>pathname = ''/mod log'', searchParams = [], client_cookie = None, db_cookie = None\<rparr> = None
   \<and> requireUserId \<lparr>pathname = ''/mod log'', searchParams = [], client_cookie = None, db_cookie = None\<rparr> None
       = Inl (ThrownResponse
                \<lparr>status = 302, headers = [Location ''/login?redirectTo=%2Fmod+log''], body = None\<rparr>)
   \<and> form_decode ''%2Fmod+log'' = ''/mod log''"
proof -
  let ?req = "\<lparr>pathname = ''/mod log'', searchParams = [], client_cookie = None, db_cookie = None\<rparr>"
  have h: "getUserId ?req = None"
    by (simp add: getUserId_def session_get_def getCookieSession_def obj_get_def)
  have p: "pathname ?req = ''/mod log''" by simp
  note t = requireUserId_redirects_to_login [OF h, unfolded p form_encode_mod_log]
  have a: "''/login?redirectTo='' @ ''%2Fmod+log'' = ''/login?redirectTo=%2Fmod+log''" by simp
  from t h show ?thesis unfolding a by blast
qed


text \<open>
  Claim C10. A user id that is the empty string is treated as an absent one: in both
  cases \<open>requireUserId\<close> throws the same login redirect, whatever its second argument;
  and every value \<open>requireUserId\<close> returns is a non-empty string, the user id of the
  cookie session.
\<close>

theorem requireUserId_falsy_user_id:
  "(getUserId req = Some [] \<longrightarrow>
      requireUserId req r =
        Inl (ThrownResponse
               (redirect (''/login?'' @ URLSearchParams_toString
                            [(''redirectTo'', case r of None \<Rightarrow> pathname req | Some t \<Rightarrow> t)]) 302 [])))
   \<and> (getUserId req = None \<longrightarrow>
      requireUserId req r =
        Inl (ThrownResponse
               (redirect (''/login?'' @ URLSearchParams_toString
                            [(''redirectTo'', case r of None \<Rightarrow> pathname req | Some t \<Rightarrow> t)]) 302 [])))
   \<and> (\<forall>u. requireUserId req r = Inr u \<longrightarrow> u \<noteq> [] \<and> getUserId req = Some u)"
  by (auto simp: requireUserId_def Let_def split: option.splits if_splits)

text \<open>
  A cookie session whose user id is the empty string, and one whose user id is
  \<open>u1\<close>.
\<close>

theorem requireUserId_falsy_user_id_witness:
  "getUserId \<lparr>pathname = ''/a'', searchParams = [], client_cookie = Some [(''userId'', [])], db_cookie = None\<rparr> = Some []
   \<and> requireUserId \<lparr>pathname = ''/a'', searchParams = [], client_cookie = Some [(''userId'', [])], db_cookie = None\<rparr> None
       = Inl (ThrownResponse \<lparr>status = 302, headers = [Location ''/login?redirectTo=%2Fa''], body = None\<rparr>)
   \<and> requireUserId \<lparr>pathname = ''/a'', searchParams = [], client_cookie = Some [(''userId'', ''u1'')], db_cookie = None\<rparr> None
       = Inr ''u1''
   \<and> ''u1'' \<noteq> []"
proof -
  let ?req = "\<lparr>pathname = ''/a'', searchParams = [], client_cookie = Some [(''userId'', [])], db_cookie = None\<rparr>"
  let ?req' = "\<lparr>pathname = ''/a'', searchParams = [], client_cookie = Some [(''userId'', ''u1'')], db_cookie = None\<rparr>"
  have h: "getUserId ?req = Some []"
    by (simp add: getUserId_def session_get_def getCookieSession_def obj_get_def USER_SESSION_KEY_def)
  have r: "requireUserId ?req' None = Inr ''u1''"
    by (simp add: requireUserId_def getUserId_def session_get_def getCookieSession_def obj_get_def
          USER_SESSION_KEY_def)
  have loc: "redirect (''/login?'' @ URLSearchParams_toString [(''redirectTo'', ''/a'')]) 302 []
             = \<lparr>status = 302, headers = [Location ''/login?redirectTo=%2Fa''], body = None\<rparr>"
    by (simp add: redirect_def form_encode_redirectTo form_encode_a)
  have "requireUserId ?req None =
          Inl (ThrownResponse
                 (redirect (''/login?'' @ URLSearchParams_toString
                              [(''redirectTo'', case None of None \<Rightarrow> pathname ?req | Some t \<Rightarrow> t)]) 302 []))"
    using requireUserId_falsy_user_id [of ?req None] h by blast
  then have a: "requireUserId ?req None
                = Inl (ThrownResponse \<lparr>status = 302, headers = [Location ''/login?redirectTo=%2Fa''], body = None\<rparr>)"
    using loc by simp
  have b: "''u1'' \<noteq> []"
    using requireUserId_falsy_user_id [of ?req' None] r by blast
  from h a r b show ?thesis by blast
qed

section \<open>Logging out\<close>

lemma getDbSession_id:
  "session_id (getDbSession req w) = (case db_cookie req of None \<Rightarrow> [] | Some i \<Rightarrow> i)"
  by (simp add: getDbSession_def split: option.splits)

lemma deleteData_twice: "deleteData i (deleteData i w) = deleteData i w"
  by (simp add: deleteData_def)

lemma readData_deleteData: "readData i (deleteData i w) = None"
  by (simp add: readData_def deleteData_def find_None_iff split: option.splits)

lemma logout_eq:
  "logout req w =
     (\<lparr>status = 302,
       headers = [Set_Cookie (ClearCookie ''__client-session''), Set_Cookie (ClearCookie ''__session''),
                  Location ''/''],
       body = None\<rparr>,
      deleteData (case db_cookie req of None \<Rightarrow> [] | Some i \<Rightarrow> i) w)"
  by (simp add: logout_def Let_def destroyDbSession_def destroyCookieSession_def redirect_def
        getDbSession_id)

lemma users_log_call: "users (log_call c w) = users w"
  by (simp add: log_call_def)

lemma sessions_log_call: "sessions (log_call c w) = sessions w"
  by (simp add: log_call_def)

lemma logout_deletes_cookie_row:
  "db_cookie req = Some i \<Longrightarrow> readData i (snd (logout req w)) = None"
  by (simp add: logout_eq readData_deleteData)

lemma logout_sessions:
  "db_cookie req = Some i \<Longrightarrow>
     sessions (snd (logout req w)) = filter (\<lambda>r. row_id r \<noteq> i) (sessions w)"
  by (simp add: logout_eq deleteData_def)

lemma logout_world_with_user:
  "logout stale_request (log_call c world_with_user) =
     (\<lparr>status = 302,
       headers = [Set_Cookie (ClearCookie ''__client-session''), Set_Cookie (ClearCookie ''__session''),
                  Location ''/''],
       body = None\<rparr>,
      \<lparr>users = [\<lparr>user_id = ''u1'', user_email = ''ann@example.org'', user_externalId = ''42''\<rparr>],
       sessions = [], calls = [c], uuid_count = 0\<rparr>)"
  by (simp add: logout_eq stale_request_def world_with_user_def log_call_def deleteData_def pending_row_def)

text \<open>
  Claim C4. Logout is idempotent: a second \<open>logout\<close> of the same request, in the
  world the first one left, gives the same response and the same world. The response is
  the redirect to \<open>/\<close> that clears both cookies. The row of the session that the
  \<open>__session\<close> cookie of the request names is deleted and every other row is kept;
  after the first and after the second \<open>logout\<close> that id reads as null, whether or not
  the table had such a row before. \<open>logout\<close> has no error result.
\<close>

theorem logout_idempotent:
  "logout req (snd (logout req w)) = logout req w
   \<and> fst (logout req w) =
       \<lparr>status = 302,
        headers = [Set_Cookie (ClearCookie ''__client-session''), Set_Cookie (ClearCookie ''__session''),
                   Location ''/''],
        body = None\<rparr>
   \<and> (\<forall>i. db_cookie req = Some i \<longrightarrow>
          readData i (snd (logout req w)) = None
          \<and> readData i (snd (logout req (snd (logout req w)))) = None
          \<and> sessions (snd (logout req w)) = filter (\<lambda>r. row_id r \<noteq> i) (sessions w))
   \<and> readData (session_id (getDbSession req w)) (snd (logout req w)) = None
   \<and> sessions (snd (logout req (snd (logout req w)))) = sessions (snd (logout req w))"
proof (intro conjI allI impI)
  show "logout req (snd (logout req w)) = logout req w"
    by (simp add: logout_eq deleteData_twice)
  show "fst (logout req w) =
       \<lparr>status = 302,
        headers = [Set_Cookie (ClearCookie ''__client-session''), Set_Cookie (ClearCookie ''__session''),
                   Location ''/''],
        body = None\<rparr>"
    by (simp add: logout_eq)
  show "readData (session_id (getDbSession req w)) (snd (logout req w)) = None"
    by (simp add: logout_eq readData_deleteData getDbSession_id)
  show "sessions (snd (logout req (snd (logout req w)))) = sessions (snd (logout req w))"
    by (simp add: logout_eq deleteData_twice)
next
  fix i assume "db_cookie req = Some i"
  then show "readData i (snd (logout req w)) = None"
    by (rule logout_deletes_cookie_row)
next
  fix i assume "db_cookie req = Some i"
  then show "readData i (snd (logout req (snd (logout req w)))) = None"
    by (rule logout_deletes_cookie_row)
next
  fix i assume "db_cookie req = Some i"
  then show "sessions (snd (logout req w)) = filter (\<lambda>r. row_id r \<noteq> i) (sessions w)"
    by (rule logout_sessions)
qed

text \<open>
  A request with the cookie of session \<open>s1\<close>: the row is there before, and gone after
  one \<open>logout\<close> and after two.
\<close>

theorem logout_idempotent_witness:
  "db_cookie callback_request = Some ''s1''
   \<and> readData ''s1'' world_with_user = Some pending_row
   \<and> readData ''s1'' (snd (logout callback_request world_with_user)) = None
   \<and> readData ''s1'' (snd (logout callback_request (snd (logout callback_request world_with_user)))) = None
   \<and> logout callback_request (snd (logout callback_request world_with_user))
       = logout callback_request world_with_user"
proof -
  have c: "db_cookie callback_request = Some ''s1''" by (simp add: callback_request_def)
  have r: "readData ''s1'' world_with_user = Some pending_row"
    by (simp add: readData_def world_with_user_def pending_row_def)
  note t = logout_idempotent [of callback_request world_with_user]
  have a: "readData ''s1'' (snd (logout callback_request world_with_user)) = None"
    using t c by blast
  have b: "readData ''s1'' (snd (logout callback_request (snd (logout callback_request world_with_user)))) = None"
    using t c by blast
  have d: "logout callback_request (snd (logout callback_request world_with_user))
       = logout callback_request world_with_user"
    using t by blast
  from c r a b d show ?thesis by blast
qed

text \<open>
  Claim C6. When the cookie session carries a user id for which \<open>getUserById\<close> finds
  no user, \<open>getUser\<close> and \<open>requireUser\<close> throw the response of \<open>logout\<close> and leave the
  world \<open>logout\<close> leaves: the redirect to \<open>/\<close> that clears both cookies, with the row
  of the session named by the \<open>__session\<close> cookie deleted and the other rows kept. For
  \<open>requireUser\<close> the user id is taken to be non-empty, as every user id in a cookie
  session is: the cookie is signed, and the only write of the key (in
  \<open>completeOauthLogin\<close>) comes after the guard that rejects an empty id.
\<close>

theorem stale_user_id_logs_out:
  "(getUserId req = Some u \<and> getUserById d u (users w) = Inr None \<longrightarrow>
      getUser d req w =
        (Inl (ThrownResponse (fst (logout req (log_call (Call_getUserById u) w)))),
         snd (logout req (log_call (Call_getUserById u) w))))
   \<and> (getUserId req = Some u \<and> u \<noteq> [] \<and> getUserById d u (users w) = Inr None \<longrightarrow>
      requireUser d req w =
        (Inl (ThrownResponse (fst (logout req (log_call (Call_getUserById u) w)))),
         snd (logout req (log_call (Call_getUserById u) w))))
   \<and> fst (logout req (log_call (Call_getUserById u) w)) =
       \<lparr>status = 302,
        headers = [Set_Cookie (ClearCookie ''__client-session''), Set_Cookie (ClearCookie ''__session''),
                   Location ''/''],
        body = None\<rparr>
   \<and> (\<forall>i. db_cookie req = Some i \<longrightarrow>
          readData i (snd (logout req (log_call (Call_getUserById u) w))) = None
          \<and> sessions (snd (logout req (log_call (Call_getUserById u) w)))
              = filter (\<lambda>r. row_id r \<noteq> i) (sessions w))"
proof (intro conjI impI allI)
  assume a: "getUserId req = Some u \<and> getUserById d u (users w) = Inr None"
  then show "getUser d req w =
        (Inl (ThrownResponse (fst (logout req (log_call (Call_getUserById u) w)))),
         snd (logout req (log_call (Call_getUserById u) w)))"
    by (simp add: getUser_def Let_def users_log_call split: prod.splits)
next
  assume a: "getUserId req = Some u \<and> u \<noteq> [] \<and> getUserById d u (users w) = Inr None"
  then have "requireUserId req None = Inr u"
    by (simp add: requireUserId_def)
  with a show "requireUser d req w =
        (Inl (ThrownResponse (fst (logout req (log_call (Call_getUserById u) w)))),
         snd (logout req (log_call (Call_getUserById u) w)))"
    by (simp add: requireUser_def Let_def users_log_call split: prod.splits)
next
  show "fst (logout req (log_call (Call_getUserById u) w)) =
       \<lparr>status = 302,
        headers = [Set_Cookie (ClearCookie ''__client-session''), Set_Cookie (ClearCookie ''__session''),
                   Location ''/''],
        body = None\<rparr>"
    by (simp add: logout_eq)
next
  fix i assume "db_cookie req = Some i"
  then show "readData i (snd (logout req (log_call (Call_getUserById u) w))) = None"
    by (rule logout_deletes_cookie_row)
next
  fix i assume "db_cookie req = Some i"
  then show "sessions (snd (logout req (log_call (Call_getUserById u) w)))
              = filter (\<lambda>r. row_id r \<noteq> i) (sessions w)"
    by (simp add: logout_sessions sessions_log_call)
qed


text \<open>The request of a user \<open>u9\<close> who is no longer in the user table.\<close>

theorem stale_user_id_logs_out_witness:
  "getUserId stale_request = Some ''u9'' \<and> ''u9'' \<noteq> []
   \<and> getUserById spec_deps ''u9'' (users world_with_user) = Inr None
   \<and> db_cookie stale_request = Some ''s1''
   \<and> readData ''s1'' world_with_user = Some pending_row
   \<and> requireUser spec_deps stale_request world_with_user =
       (Inl (ThrownResponse
              \<lparr>status = 302,
               headers = [Set_Cookie (ClearCookie ''__client-session''),
                          Set_Cookie (ClearCookie ''__session''), Location ''/''],
               body = None\<rparr>),
        \<lparr>users = [\<lparr>user_id = ''u1'', user_email = ''ann@example.org'', user_externalId = ''42''\<rparr>],
         sessions = [], calls = [Call_getUserById ''u9''], uuid_count = 0\<rparr>)
   \<and> getUser spec_deps stale_request world_with_user = 
       (Inl (ThrownResponse
              \<lparr>status = 302,
               headers = [Set_Cookie (ClearCookie ''__client-session''),
                          Set_Cookie (ClearCookie ''__session''), Location ''/''],
               body = None\<rparr>),
        \<lparr>users = [\<lparr>user_id = ''u1'', user_email = ''ann@example.org'', user_externalId = ''42''\<rparr>],
         sessions = [], calls = [Call_getUserById ''u9''], uuid_count = 0\<rparr>)
   \<and> readData ''s1'' (snd (requireUser spec_deps stale_request world_with_user)) = None"
proof -
  have h1: "getUserId stale_request = Some ''u9''"
    by (simp add: getUserId_def session_get_def getCookieSession_def obj_get_def USER_SESSION_KEY_def
          stale_request_def)
  have h2: "''u9'' \<noteq> []" by simp
  have h3: "getUserById spec_deps ''u9'' (users world_with_user) = Inr None"
    by (simp add: spec_deps_def getUserById_spec_def world_with_user_def)
  have h4: "db_cookie stale_request = Some ''s1''" by (simp add: stale_request_def)
  have h5: "readData ''s1'' world_with_user = Some pending_row"
    by (simp add: readData_def world_with_user_def pending_row_def)
  note t = stale_user_id_logs_out [of stale_request "''u9''" spec_deps world_with_user]
  have a: "requireUser spec_deps stale_request world_with_user =
        (Inl (ThrownResponse (fst (logout stale_request (log_call (Call_getUserById ''u9'') world_with_user)))),
         snd (logout stale_request (log_call (Call_getUserById ''u9'') world_with_user)))"
    using t h1 h2 h3 by blast
  have b: "getUser spec_deps stale_request world_with_user =
        (Inl (ThrownResponse (fst (logout stale_request (log_call (Call_getUserById ''u9'') world_with_user)))),
         snd (logout stale_request (log_call (Call_getUserById ''u9'') world_with_user)))"
    using t h1 h3 by blast
  have "readData ''s1'' (snd (logout stale_request (log_call (Call_getUserById ''u9'') world_with_user))) = None"
    using t h4 by blast
  then have c: "readData ''s1'' (snd (requireUser spec_deps stale_request world_with_user)) = None"
    unfolding a snd_conv .
  from h1 h2 h3 h4 h5 a b c show ?thesis
    unfolding logout_world_with_user fst_conv snd_conv by blast
qed


text \<open>
  For completeness: were the user id of the cookie session the empty string,
  \<open>requireUser\<close> would throw the login redirect of \<open>requireUserId\<close> and change nothing.
\<close>

lemma requireUser_empty_user_id:
  "getUserId req = Some [] \<Longrightarrow>
     requireUser d req w =
       (Inl (ThrownResponse
              \<lparr>status = 302,
               headers = [Location (''/login?redirectTo='' @ form_encode (pathname req))],
               body = None\<rparr>), w)"
  by (simp add: requireUser_def requireUserId_def redirect_def form_encode_redirectTo)

section \<open>Completing the login\<close>


lemma redirect_login_401:
  "redirect ''/login'' 401 [] = \<lparr>status = 401, headers = [Location ''/login''], body = None\<rparr>"
  by (simp add: redirect_def)

lemma callback_mismatch:
  "sessions w = [pending_row] \<Longrightarrow>
   strict_differs (session_get (getDbSession callback_request w) ''state'')
     (map_of (searchParams callback_request) ''state'')"
  by (simp add: callback_request_def getDbSession_def readData_def pending_row_def row_object_def
        session_get_def obj_get_def)







text \<open>
  When the lookup by external id resolves to a user with a non-empty id,
  \<open>createUser\<close> is not called and the user table stays as it is, on every path.
\<close>

lemma commitDbSession_users_calls:
  "users (snd (commitDbSession p s m w)) = users w \<and> calls (snd (commitDbSession p s m w)) = calls w"
  by (simp add: commitDbSession_def updateData_def createData_def Let_def split: prod.splits)

lemma completeOauthLogin_found_user:
  assumes t: "fetchToken d = Inr token" and f: "fetchUser d token = Inr remote"
    and g: "getUserByExternalId d (discord_id remote) (users w) = Inr (Some u)"
    and n: "user_id u \<noteq> []"
  shows "users (snd (completeOauthLogin p d req w)) = users w
         \<and> calls (snd (completeOauthLogin p d req w))
             = calls w @ [Call_fetchToken, Call_fetchUser, Call_getUserByExternalId (discord_id remote)]"
proof -
  let ?w3 = "log_call (Call_getUserByExternalId (discord_id remote)) (log_call Call_fetchUser (log_call Call_fetchToken w))"
  have u3: "users ?w3 = users w" by (simp add: users_log_call)
  have c3: "calls ?w3 = calls w @ [Call_fetchToken, Call_fetchUser, Call_getUserByExternalId (discord_id remote)]"
    by (simp add: log_call_def)
  show ?thesis
  proof (cases "strict_differs (session_get (getDbSession req ?w3) ''state'') (map_of (searchParams req) ''state'')")
    case True
    then show ?thesis using t f g n u3 c3
      by (simp add: completeOauthLogin_def Let_def)
  next
    case False
    let ?s = "session_set ''discordToken'' (JSON_stringify p token)
                (session_unset ''state'' (getDbSession req ?w3))"
    obtain c w5 where cm: "commitDbSession p ?s None ?w3 = (c, w5)"
      by (cases "commitDbSession p ?s None ?w3") auto
    from commitDbSession_users_calls [of p ?s None ?w3] cm
    have k: "users w5 = users w \<and> calls w5 = calls ?w3" by (simp add: u3)
    show ?thesis using False t f g n u3 c3 cm k
      by (simp add: completeOauthLogin_def Let_def)
  qed
qed

text \<open>
  Claim C3 at a failing input. The remote user \<open>42\<close> has the local user \<open>u1\<close>, but
  the lookup by external id rejects; the rejection is caught and ignored, \<open>createUser\<close>
  is called, and the user table ends with two users for the remote user \<open>42\<close>.
\<close>

theorem completeOauthLogin_lookup_rejected_creates_duplicate:
  "completeOauthLogin test_platform
      (spec_deps\<lparr>getUserByExternalId := getUserByExternalId_rejects (ThrownError ''Error'' ''connection lost'')\<rparr>)
      callback_request world_with_user
   = (Inl (ThrownResponse \<lparr>status = 401, headers = [Location ''/login''], body = None\<rparr>),
      \<lparr>users = [\<lparr>user_id = ''u1'', user_email = ''ann@example.org'', user_externalId = ''42''\<rparr>,
                \<lparr>user_id = ''u2'', user_email = ''ann@example.org'', user_externalId = ''42''\<rparr>],
       sessions = [pending_row],
       calls = [Call_fetchToken, Call_fetchUser, Call_getUserByExternalId ''42'',
                Call_createUser ''ann@example.org'' ''42''],
       uuid_count = 0\<rparr>)"
proof -
  let ?w4 = "\<lparr>users = [\<lparr>user_id = ''u1'', user_email = ''ann@example.org'', user_externalId = ''42''\<rparr>,
                \<lparr>user_id = ''u2'', user_email = ''ann@example.org'', user_externalId = ''42''\<rparr>],
       sessions = [pending_row],
       calls = [Call_fetchToken, Call_fetchUser, Call_getUserByExternalId ''42'',
                Call_createUser ''ann@example.org'' ''42''],
       uuid_count = 0\<rparr>"
  have m: "strict_differs (session_get (getDbSession callback_request ?w4) ''state'')
             (map_of (searchParams callback_request) ''state'')"
    by (rule callback_mismatch) simp
  show ?thesis using m
    by (simp add: completeOauthLogin_def spec_deps_def fetchUser_result_def remote_user_def
        getUserByExternalId_rejects_def createUser_spec_def world_with_user_def log_call_def Let_def
        redirect_login_401)
qed


text \<open>
  Claim C9. The state is compared after the token exchange, the profile fetch, the
  lookup and the creation of the user: there is a request whose state does not match for
  which \<open>completeOauthLogin\<close> throws the 401 redirect after those four calls, with a new
  user in the user table.
\<close>

theorem completeOauthLogin_creates_user_before_state_check:
  "\<exists>req w w'.
     strict_differs (session_get (getDbSession req w) ''state'') (map_of (searchParams req) ''state'')
     \<and> completeOauthLogin test_platform spec_deps req w
         = (Inl (ThrownResponse \<lparr>status = 401, headers = [Location ''/login''], body = None\<rparr>), w')
     \<and> users w' = users w @ [\<lparr>user_id = ''u2'', user_email = ''ann@example.org'', user_externalId = ''42''\<rparr>]
     \<and> users w' \<noteq> users w
     \<and> sessions w' = sessions w
     \<and> calls w' = calls w @ [Call_fetchToken, Call_fetchUser, Call_getUserByExternalId ''42'',
                              Call_createUser ''ann@example.org'' ''42'']"
proof -
  let ?w4 = "\<lparr>users = [\<lparr>user_id = ''u2'', user_email = ''ann@example.org'', user_externalId = ''42''\<rparr>],
       sessions = [pending_row],
       calls = [Call_fetchToken, Call_fetchUser, Call_getUserByExternalId ''42'',
                Call_createUser ''ann@example.org'' ''42''],
       uuid_count = 0\<rparr>"
  have m: "strict_differs (session_get (getDbSession callback_request world_without_user) ''state'')
             (map_of (searchParams callback_request) ''state'')"
    by (rule callback_mismatch) (simp add: world_without_user_def)
  have m4: "strict_differs (session_get (getDbSession callback_request ?w4) ''state'')
             (map_of (searchParams callback_request) ''state'')"
    by (rule callback_mismatch) simp
  have r: "completeOauthLogin test_platform spec_deps callback_request world_without_user
           = (Inl (ThrownResponse \<lparr>status = 401, headers = [Location ''/login''], body = None\<rparr>), ?w4)"
    using m4
    by (simp add: completeOauthLogin_def spec_deps_def fetchUser_result_def remote_user_def
        getUserByExternalId_spec_def createUser_spec_def world_without_user_def log_call_def Let_def
        redirect_login_401)
  have u: "users ?w4 = users world_without_user @ [\<lparr>user_id = ''u2'', user_email = ''ann@example.org'', user_externalId = ''42''\<rparr>]"
    by (simp add: world_without_user_def)
  have s: "sessions ?w4 = sessions world_without_user"
    by (simp add: world_without_user_def)
  have c: "calls ?w4 = calls world_without_user @ [Call_fetchToken, Call_fetchUser, Call_getUserByExternalId ''42'',
                              Call_createUser ''ann@example.org'' ''42'']"
    by (simp add: world_without_user_def)
  have n: "users ?w4 \<noteq> users world_without_user"
    by (simp add: world_without_user_def)
  from m r u n s c show ?thesis by blast
qed

section \<open>The setup command's failure handling\<close>

lemma handler_returns: "fst (handler d i b) = Inr ()"
  by (simp add: handler_def split: prod.splits sum.splits thrown.splits)

lemma handler_caught_Error:
  "handler_try d i b = (Inl (ThrownError name msg), b') \<Longrightarrow>
     snd (handler d i b) = reply (broke_message (Error_toString name msg)) b'"
  by (simp add: handler_def)

lemma handler_caught_other:
  "handler_try d i b = (Inl e, b') \<Longrightarrow> (\<forall>name msg. e \<noteq> ThrownError name msg) \<Longrightarrow>
     snd (handler d i b) = b'"
  by (cases e) (simp_all add: handler_def)

lemma handler_try_no_guild:
  "guild i = None \<Longrightarrow> handler_try d i b = (Inl (ThrownError ''Error'' ''Interaction has no guild''), b)"
  by (simp add: handler_try_def)

lemma handler_try_no_role:
  "guild i = Some g \<Longrightarrow> registerGuild d g (guilds b) = (Inr (), gs) \<Longrightarrow> option_moderator i = None \<Longrightarrow>
     handler_try d i b = (Inl (ThrownError ''Error'' ''Interaction has no role''), b\<lparr>guilds := gs\<rparr>)"
  by (simp add: handler_try_def)

lemma handler_try_no_channel:
  "guild i = Some g \<Longrightarrow> registerGuild d g (guilds b) = (Inr (), gs) \<Longrightarrow> option_moderator i = Some role \<Longrightarrow>
   option_mod_log_channel i = None \<Longrightarrow>
     handler_try d i b = (Inl (ThrownError ''Error'' ''Interaction has no channel''), b\<lparr>guilds := gs\<rparr>)"
  by (simp add: handler_try_def)

lemma handler_try_registerGuild_rejects:
  "guild i = Some g \<Longrightarrow> registerGuild d g (guilds b) = (Inl e, gs) \<Longrightarrow>
     handler_try d i b = (Inl e, b\<lparr>guilds := gs\<rparr>)"
  by (simp add: handler_try_def)

lemma handler_try_setSettings_rejects:
  "guild i = Some g \<Longrightarrow> registerGuild d g (guilds b) = (Inr (), gs) \<Longrightarrow>
   option_moderator i = Some role \<Longrightarrow> option_mod_log_channel i = Some channel \<Longrightarrow>
   setSettings d g (obj_set (SETTINGS_moderator d) role (obj_set (SETTINGS_modLog d) channel [])) gs
     = (Inl e, gs') \<Longrightarrow>
     handler_try d i b = (Inl e, b\<lparr>guilds := gs'\<rparr>)"
  by (simp add: handler_try_def)

text \<open>
  Claim C2, as amended. The handler ends normally whatever is thrown in its \<open>try\<close>
  block. When the thrown value is an instance of \<open>Error\<close>, it replies with the
  \<open>Something broke\<close> message around the error's \<open>toString()\<close>: so for a missing guild,
  role or channel, and so when \<open>registerGuild\<close> or \<open>setSettings\<close> rejects with an
  \<open>Error\<close>. A thrown value that is not an \<open>Error\<close>, from the \<open>try\<close> block or from
  either of the two functions, is dropped with no reply. In each case the store is left
  as the failing call left it.
\<close>

theorem handler_catches_thrown_values:
  "fst (handler d i b) = Inr ()
   \<and> (\<forall>name msg b'. handler_try d i b = (Inl (ThrownError name msg), b') \<longrightarrow>
         snd (handler d i b) = reply (broke_message (Error_toString name msg)) b')
   \<and> (\<forall>e b'. handler_try d i b = (Inl e, b') \<and> (\<forall>name msg. e \<noteq> ThrownError name msg) \<longrightarrow>
         snd (handler d i b) = b')
   \<and> (guild i = None \<longrightarrow>
         snd (handler d i b) = reply (broke_message ''Error: Interaction has no guild'') b)
   \<and> (\<forall>g gs. guild i = Some g \<and> registerGuild d g (guilds b) = (Inr (), gs) \<and> option_moderator i = None \<longrightarrow>
         snd (handler d i b)
         = reply (broke_message ''Error: Interaction has no role'') (b\<lparr>guilds := gs\<rparr>))
   \<and> (\<forall>g gs role. guild i = Some g \<and> registerGuild d g (guilds b) = (Inr (), gs)
         \<and> option_moderator i = Some role \<and> option_mod_log_channel i = None \<longrightarrow>
         snd (handler d i b)
         = reply (broke_message ''Error: Interaction has no channel'') (b\<lparr>guilds := gs\<rparr>))
   \<and> (\<forall>g gs name msg. guild i = Some g
         \<and> registerGuild d g (guilds b) = (Inl (ThrownError name msg), gs) \<longrightarrow>
         snd (handler d i b)
         = reply (broke_message (Error_toString name msg)) (b\<lparr>guilds := gs\<rparr>))
   \<and> (\<forall>g gs e. guild i = Some g \<and> registerGuild d g (guilds b) = (Inl e, gs)
         \<and> (\<forall>name msg. e \<noteq> ThrownError name msg) \<longrightarrow>
         snd (handler d i b) = b\<lparr>guilds := gs\<rparr>)
   \<and> (\<forall>g gs role channel gs' name msg. guild i = Some g
         \<and> registerGuild d g (guilds b) = (Inr (), gs)
         \<and> option_moderator i = Some role \<and> option_mod_log_channel i = Some channel
         \<and> setSettings d g (obj_set (SETTINGS_moderator d) role (obj_set (SETTINGS_modLog d) channel [])) gs
             = (Inl (ThrownError name msg), gs') \<longrightarrow>
         snd (handler d i b)
         = reply (broke_message (Error_toString name msg)) (b\<lparr>guilds := gs'\<rparr>))
   \<and> (\<forall>g gs role channel gs' e. guild i = Some g
         \<and> registerGuild d g (guilds b) = (Inr (), gs)
         \<and> option_moderator i = Some role \<and> option_mod_log_channel i = Some channel
         \<and> setSettings d g (obj_set (SETTINGS_moderator d) role (obj_set (SETTINGS_modLog d) channel [])) gs
             = (Inl e, gs')
         \<and> (\<forall>name msg. e \<noteq> ThrownError name msg) \<longrightarrow>
         snd (handler d i b) = b\<lparr>guilds := gs'\<rparr>)"
proof (intro conjI allI impI)
  show "fst (handler d i b) = Inr ()" by (rule handler_returns)
next
  fix name msg b'
  assume "handler_try d i b = (Inl (ThrownError name msg), b')"
  then show "snd (handler d i b) = reply (broke_message (Error_toString name msg)) b'"
    by (rule handler_caught_Error)
next
  fix e b'
  assume "handler_try d i b = (Inl e, b') \<and> (\<forall>name msg. e \<noteq> ThrownError name msg)"
  then show "snd (handler d i b) = b'"
    using handler_caught_other by blast
next
  assume "guild i = None"
  from handler_caught_Error [OF handler_try_no_guild [OF this]]
  show "snd (handler d i b) = reply (broke_message ''Error: Interaction has no guild'') b"
    by (simp add: Error_toString_def)
next
  fix g gs
  assume "guild i = Some g \<and> registerGuild d g (guilds b) = (Inr (), gs) \<and> option_moderator i = None"
  then have "handler_try d i b = (Inl (ThrownError ''Error'' ''Interaction has no role''), b\<lparr>guilds := gs\<rparr>)"
    using handler_try_no_role by blast
  from handler_caught_Error [OF this]
  show "snd (handler d i b) = reply (broke_message ''Error: Interaction has no role'') (b\<lparr>guilds := gs\<rparr>)"
    by (simp add: Error_toString_def)
next
  fix g gs role
  assume "guild i = Some g \<and> registerGuild d g (guilds b) = (Inr (), gs)
         \<and> option_moderator i = Some role \<and> option_mod_log_channel i = None"
  then have "handler_try d i b = (Inl (ThrownError ''Error'' ''Interaction has no channel''), b\<lparr>guilds := gs\<rparr>)"
    using handler_try_no_channel by blast
  from handler_caught_Error [OF this]
  show "snd (handler d i b) = reply (broke_message ''Error: Interaction has no channel'') (b\<lparr>guilds := gs\<rparr>)"
    by (simp add: Error_toString_def)
next
  fix g gs name msg
  assume "guild i = Some g \<and> registerGuild d g (guilds b) = (Inl (ThrownError name msg), gs)"
  then have "handler_try d i b = (Inl (ThrownError name msg), b\<lparr>guilds := gs\<rparr>)"
    using handler_try_registerGuild_rejects by blast
  then show "snd (handler d i b) = reply (broke_message (Error_toString name msg)) (b\<lparr>guilds := gs\<rparr>)"
    by (rule handler_caught_Error)
next
  fix g gs e
  assume a: "guild i = Some g \<and> registerGuild d g (guilds b) = (Inl e, gs)
         \<and> (\<forall>name msg. e \<noteq> ThrownError name msg)"
  then have "handler_try d i b = (Inl e, b\<lparr>guilds := gs\<rparr>)"
    using handler_try_registerGuild_rejects by blast
  with a show "snd (handler d i b) = b\<lparr>guilds := gs\<rparr>"
    using handler_caught_other by blast
next
  fix g gs role channel gs' name msg
  assume "guild i = Some g
         \<and> registerGuild d g (guilds b) = (Inr (), gs)
         \<and> option_moderator i = Some role \<and> option_mod_log_channel i = Some channel
         \<and> setSettings d g (obj_set (SETTINGS_moderator d) role (obj_set (SETTINGS_modLog d) channel [])) gs
             = (Inl (ThrownError name msg), gs')"
  then have "handler_try d i b = (Inl (ThrownError name msg), b\<lparr>guilds := gs'\<rparr>)"
    using handler_try_setSettings_rejects by blast
  then show "snd (handler d i b) = reply (broke_message (Error_toString name msg)) (b\<lparr>guilds := gs'\<rparr>)"
    by (rule handler_caught_Error)
next
  fix g gs role channel gs' e
  assume a: "guild i = Some g
         \<and> registerGuild d g (guilds b) = (Inr (), gs)
         \<and> option_moderator i = Some role \<and> option_mod_log_channel i = Some channel
         \<and> setSettings d g (obj_set (SETTINGS_moderator d) role (obj_set (SETTINGS_modLog d) channel [])) gs
             = (Inl e, gs')
         \<and> (\<forall>name msg. e \<noteq> ThrownError name msg)"
  then have "handler_try d i b = (Inl e, b\<lparr>guilds := gs'\<rparr>)"
    using handler_try_setSettings_rejects by blast
  with a show "snd (handler d i b) = b\<lparr>guilds := gs'\<rparr>"
    using handler_caught_other by blast
qed


text \<open>
  A setup command outside a guild, and one for which \<open>registerGuild\<close> rejects with an
  \<open>Error\<close>.
\<close>

theorem handler_catches_thrown_values_witness:
  "guild no_guild_interaction = None
   \<and> handler guilds_server_spec no_guild_interaction empty_bot
       = (Inr (), \<lparr>guilds = [], replies = [broke_message ''Error: Interaction has no guild'']\<rparr>)
   \<and> guild setup_interaction = Some ''g1''
   \<and> registerGuild (guilds_server_spec\<lparr>registerGuild := registerGuild_rejects (ThrownError ''Error'' ''no database'')\<rparr>)
         ''g1'' (guilds empty_bot)
       = (Inl (ThrownError ''Error'' ''no database''), [])
   \<and> handler (guilds_server_spec\<lparr>registerGuild := registerGuild_rejects (ThrownError ''Error'' ''no database'')\<rparr>)
         setup_interaction empty_bot
       = (Inr (), \<lparr>guilds = [], replies = [broke_message ''Error: no database'']\<rparr>)"
proof -
  let ?d = "guilds_server_spec\<lparr>registerGuild := registerGuild_rejects (ThrownError ''Error'' ''no database'')\<rparr>"
  have g: "guild no_guild_interaction = None" by (simp add: no_guild_interaction_def)
  note t = handler_catches_thrown_values [of guilds_server_spec no_guild_interaction empty_bot]
  have a: "fst (handler guilds_server_spec no_guild_interaction empty_bot) = Inr ()"
    using t by blast
  have "snd (handler guilds_server_spec no_guild_interaction empty_bot)
        = reply (broke_message ''Error: Interaction has no guild'') empty_bot"
    using t g by blast
  then have b: "snd (handler guilds_server_spec no_guild_interaction empty_bot)
        = \<lparr>guilds = [], replies = [broke_message ''Error: Interaction has no guild'']\<rparr>"
    by (simp add: reply_def empty_bot_def)
  from a b have r1: "handler guilds_server_spec no_guild_interaction empty_bot
       = (Inr (), \<lparr>guilds = [], replies = [broke_message ''Error: Interaction has no guild'']\<rparr>)"
    by (simp add: prod_eq_iff)
  have g2: "guild setup_interaction = Some ''g1''" by (simp add: setup_interaction_def)
  have rj: "registerGuild ?d ''g1'' (guilds empty_bot) = (Inl (ThrownError ''Error'' ''no database''), [])"
    by (simp add: registerGuild_rejects_def empty_bot_def)
  note t2 = handler_catches_thrown_values [of ?d setup_interaction empty_bot]
  have a2: "fst (handler ?d setup_interaction empty_bot) = Inr ()"
    using t2 by blast
  have "snd (handler ?d setup_interaction empty_bot)
        = reply (broke_message (Error_toString ''Error'' ''no database'')) (empty_bot\<lparr>guilds := []\<rparr>)"
    using t2 g2 rj by blast
  then have b2: "snd (handler ?d setup_interaction empty_bot)
        = \<lparr>guilds = [], replies = [broke_message ''Error: no database'']\<rparr>"
    by (simp add: reply_def empty_bot_def Error_toString_def)
  from a2 b2 have r2: "handler ?d setup_interaction empty_bot
       = (Inr (), \<lparr>guilds = [], replies = [broke_message ''Error: no database'']\<rparr>)"
    by (simp add: prod_eq_iff)
  from g r1 g2 rj r2 show ?thesis by blast
qed

text \<open>
  Claim C2 as stated fails when \<open>registerGuild\<close> rejects with a value that is not an
  \<open>Error\<close> (here a string): the handler ends normally and the interaction gets no
  reply.
\<close>

theorem handler_swallows_non_Error_counterexample:
  "handler_try (guilds_server_spec\<lparr>registerGuild := registerGuild_rejects (ThrownOther ''timeout'')\<rparr>)
       setup_interaction empty_bot
     = (Inl (ThrownOther ''timeout''), empty_bot)
   \<and> handler (guilds_server_spec\<lparr>registerGuild := registerGuild_rejects (ThrownOther ''timeout'')\<rparr>)
       setup_interaction empty_bot
     = (Inr (), empty_bot)
   \<and> replies empty_bot = []"
  by (simp add: handler_def handler_try_def setup_interaction_def registerGuild_rejects_def empty_bot_def)

section \<open>The setup command's effect on the settings store\<close>

lemma map_of_registerGuild_spec:
  "\<exists>old. map_of (snd (registerGuild_spec g gs)) g = Some old"
  by (cases "map_of gs g") (auto simp: registerGuild_spec_def map_add_def)

lemma map_of_setSettings_spec:
  "map_of (snd (setSettings_spec g new gs)) g = map_option (write_settings new) (map_of gs g)"
  by (induction gs) (auto simp: setSettings_spec_def)

lemma write_both_settings:
  "write_settings (obj_set ''moderator'' role (obj_set ''modLog'' channel [])) old
   = obj_set ''moderator'' role (obj_set ''modLog'' channel old)"
  by (simp add: write_settings_def obj_set_def)

lemma obj_get_both_settings:
  "obj_get (obj_set ''moderator'' role (obj_set ''modLog'' channel old)) ''moderator'' = Some role
   \<and> obj_get (obj_set ''moderator'' role (obj_set ''modLog'' channel old)) ''modLog'' = Some channel"
  by (simp add: obj_get_def obj_set_def update_conv)

lemma handler_spec_complete:
  assumes "guild i = Some g" "option_moderator i = Some role" "option_mod_log_channel i = Some channel"
  shows "handler guilds_server_spec i b =
           (Inr (),
            \<lparr>guilds = snd (setSettings_spec g (obj_set ''moderator'' role (obj_set ''modLog'' channel []))
                             (snd (registerGuild_spec g (guilds b)))),
             replies = replies b @ [''Setup completed!'']\<rparr>)"
  using assms
  by (simp add: handler_def handler_try_def guilds_server_spec_def registerGuild_spec_def
        setSettings_spec_def reply_def)

text \<open>
  Claim C5. With \<open>~/models/guilds.server\<close> as the spec describes it: when the
  interaction has a guild, a role and a channel, the handler ends normally, the settings
  of the guild afterwards map \<open>moderator\<close> to the id of the role and \<open>modLog\<close> to the id
  of the channel, whether or not the guild was in the store before, and the interaction
  is given the reply \<open>Setup completed!\<close>.
\<close>

theorem handler_writes_both_settings:
  assumes "guild i = Some g" and "option_moderator i = Some role"
    and "option_mod_log_channel i = Some channel"
  shows "\<exists>settings.
           fst (handler guilds_server_spec i b) = Inr ()
           \<and> map_of (guilds (snd (handler guilds_server_spec i b))) g = Some settings
           \<and> obj_get settings ''moderator'' = Some role
           \<and> obj_get settings ''modLog'' = Some channel
           \<and> replies (snd (handler guilds_server_spec i b)) = replies b @ [''Setup completed!'']"
proof -
  obtain old where o: "map_of (snd (registerGuild_spec g (guilds b))) g = Some old"
    using map_of_registerGuild_spec by blast
  let ?new = "obj_set ''moderator'' role (obj_set ''modLog'' channel [])"
  have m: "map_of (snd (setSettings_spec g ?new (snd (registerGuild_spec g (guilds b))))) g
           = Some (obj_set ''moderator'' role (obj_set ''modLog'' channel old))"
    by (simp add: map_of_setSettings_spec o write_both_settings)
  show ?thesis
    using m obj_get_both_settings [of role channel old]
    by (simp add: handler_spec_complete [OF assms])
qed


text \<open>
  The scenario of the spec (role \<open>123\<close>, channel \<open>456\<close>), for a guild that is new to the
  store and for one whose earlier settings are overwritten.
\<close>

theorem handler_writes_both_settings_witness:
  "guild setup_interaction = Some ''g1'' \<and> option_moderator setup_interaction = Some ''123''
   \<and> option_mod_log_channel setup_interaction = Some ''456''
   \<and> handler guilds_server_spec setup_interaction empty_bot
       = (Inr (), \<lparr>guilds = [(''g1'', [(''modLog'', ''456''), (''moderator'', ''123'')])],
                   replies = [''Setup completed!'']\<rparr>)
   \<and> handler guilds_server_spec setup_interaction registered_bot
       = (Inr (), \<lparr>guilds = [(''g1'', [(''moderator'', ''123''), (''modLog'', ''456'')])],
                   replies = [''Setup completed!'']\<rparr>)
   \<and> (\<exists>settings. map_of (guilds (snd (handler guilds_server_spec setup_interaction registered_bot))) ''g1''
                     = Some settings
                   \<and> obj_get settings ''moderator'' = Some ''123''
                   \<and> obj_get settings ''modLog'' = Some ''456'')"
proof -
  have g: "guild setup_interaction = Some ''g1''" by (simp add: setup_interaction_def)
  have r: "option_moderator setup_interaction = Some ''123''" by (simp add: setup_interaction_def)
  have c: "option_mod_log_channel setup_interaction = Some ''456''" by (simp add: setup_interaction_def)
  have a: "handler guilds_server_spec setup_interaction empty_bot
       = (Inr (), \<lparr>guilds = [(''g1'', [(''modLog'', ''456''), (''moderator'', ''123'')])],
                   replies = [''Setup completed!'']\<rparr>)"
    by (simp add: handler_spec_complete [OF g r c] empty_bot_def registerGuild_spec_def
          setSettings_spec_def write_settings_def obj_set_def)
  have b: "handler guilds_server_spec setup_interaction registered_bot
       = (Inr (), \<lparr>guilds = [(''g1'', [(''moderator'', ''123''), (''modLog'', ''456'')])],
                   replies = [''Setup completed!'']\<rparr>)"
    by (simp add: handler_spec_complete [OF g r c] registered_bot_def registerGuild_spec_def
          setSettings_spec_def write_settings_def obj_set_def)
  from handler_writes_both_settings [OF g r c, of registered_bot]
  have e: "\<exists>settings. map_of (guilds (snd (handler guilds_server_spec setup_interaction registered_bot))) ''g1''
                     = Some settings
                   \<and> obj_get settings ''moderator'' = Some ''123''
                   \<and> obj_get settings ''modLog'' = Some ''456''"
    by blast
  from g r c a b e show ?thesis by blast
qed

end
